theory Spec2Isabelle
  imports Complex_Main
begin

section \<open>Values, exceptions and observable effects\<close>

text \<open>
  The Python sources exchange dictionaries, lists, strings and numbers. A dictionary is
  an association list (a dictionary literal of the source lists each key once), a
  \<^verbatim>\<open>str\<close> is a \<^typ>\<open>string\<close> with one character per code point (code points
  below 256), and a number is a rational: the decimal literal \<^verbatim>\<open>0.1\<close> is
  \<open>1 / 10\<close>.
\<close>

datatype pyval =
    PNone
  | PBool bool
  | PNum rat
  | PStr string
  | PList "pyval list"
  | PDict "(string \<times> pyval) list"

type_synonym pydict = "(string \<times> pyval) list"

text \<open>
  Exceptions are values. \<open>ConnectionError\<close> is \<^verbatim>\<open>requests.exceptions.ConnectionError\<close>,
  \<open>JSONDecodeError\<close> is what \<^verbatim>\<open>Response.json()\<close> raises on a body that is not JSON,
  and \<open>PyException\<close> stands for any other exception, with its message.
\<close>

datatype exn = ConnectionError | JSONDecodeError | PyException string

text \<open>
  Every call that leaves the process is recorded, in program order: building the agent
  (loading the MCP tools), invoking the agent, calling the accountant service
  (\<^verbatim>\<open>run_accountant_service\<close>, which evaluates and submits the payment), the
  clean-up of the MCP client, an HTTP GET with its headers, a sleep, and stopping the
  payment tool server.
\<close>

datatype event =
    CreateAgent
  | Invoke string
  | Accountant pyval pydict
  | Cleanup
  | HttpGet string "(string \<times> string) list"
  | Sleep nat
  | Terminate

record response =
  status_code :: nat
  text_body :: string
  json_body :: "pyval option"

text \<open>
  The world outside the two modules: the outcome of constructing the chat model, of
  loading the tools, the agent's final message for a given input, the accountant
  service (its module is not among the sources, so it is a parameter), the content
  server (its answer may depend on how many requests the invocation has already sent),
  and whether \<^verbatim>\<open>ensure_mcp_server_running\<close> handed back a process.
\<close>

record world =
  llm_init :: "exn + unit"
  get_tools :: "exn + unit"
  ainvoke :: "string \<Rightarrow> exn + string"
  accountant :: "pyval \<Rightarrow> pydict \<Rightarrow> exn + string"
  http_get :: "nat \<Rightarrow> string \<Rightarrow> (string \<times> string) list \<Rightarrow> exn + response"
  mcp_process :: bool

text \<open>
  A computation returns the calls it made and either the exception it raised or its
  value. Sequencing stops at the first exception, as Python does.
\<close>

type_synonym 'a act = "event list \<times> (exn + 'a)"

definition ret :: "'a \<Rightarrow> 'a act" where
  "ret x = ([], Inr x)"

definition emit :: "event \<Rightarrow> (exn + 'a) \<Rightarrow> 'a act" where
  "emit ev outcome = ([ev], outcome)"

definition act_bind :: "'a act \<Rightarrow> ('a \<Rightarrow> 'b act) \<Rightarrow> 'b act" where
  "act_bind a f =
     (case snd a of
        Inl e \<Rightarrow> (fst a, Inl e)
      | Inr x \<Rightarrow> (fst a @ fst (f x), snd (f x)))"

text \<open>A \<^verbatim>\<open>finally\<close> block whose body cannot raise: its calls are appended on every path.\<close>

definition try_finally :: "'a act \<Rightarrow> event list \<Rightarrow> 'a act" where
  "try_finally a fin = (fst a @ fin, snd a)"

section \<open>Strings\<close>

text \<open>
  \<^verbatim>\<open>str.strip()\<close> and the regular expression class \<^verbatim>\<open>\s\<close> use Python's notion of
  white space: below code point 256 these are 9 to 13, 28 to 32, 133 and 160.
\<close>

definition py_isspace :: "char \<Rightarrow> bool" where
  "py_isspace c =
     (let n = (of_char c :: nat)
      in (9 \<le> n \<and> n \<le> 13) \<or> (28 \<le> n \<and> n \<le> 32) \<or> n = 133 \<or> n = 160)"

definition py_strip :: "string \<Rightarrow> string" where
  "py_strip s = rev (dropWhile py_isspace (rev (dropWhile py_isspace s)))"

fun starts_with :: "string \<Rightarrow> string \<Rightarrow> bool" where
  "starts_with s [] = True"
| "starts_with [] (p # ps) = False"
| "starts_with (c # cs) (p # ps) = (c = p \<and> starts_with cs ps)"

text \<open>Python's \<^verbatim>\<open>sub in s\<close> on strings.\<close>

fun is_infix :: "string \<Rightarrow> string \<Rightarrow> bool" where
  "is_infix sub [] = (sub = [])"
| "is_infix sub (c # cs) = (starts_with (c # cs) sub \<or> is_infix sub cs)"

section \<open>The news retrieval agent (agents/retriv.py)\<close>

text \<open>
  \<^verbatim>\<open>
  user_input = f"""Based on the following context, search for related news articles:

                          Context: {self.context}

                          Please search for relevant news and provide a summary."""
  \<close>
\<close>

definition user_input :: "string \<Rightarrow> string" where
  "user_input context =
     ''Based on the following context, search for related news articles:'' @
     [CHR 0x0A, CHR 0x0A] @ replicate 24 (CHR '' '') @ ''Context: '' @ context @
     [CHR 0x0A, CHR 0x0A] @ replicate 24 (CHR '' '') @
     ''Please search for relevant news and provide a summary.''"

text \<open>
  \<^verbatim>\<open>
  if not user_profile:
      user_profile = {"user_id": "default_guest", "tier": "standard",
                      "custom_budget_limit": 0.1,
                      "preference": "user has a neutral preference for news content"}
  result = await run_accountant_service(payment_info, user_profile)
  return result
  \<close>
  \<^verbatim>\<open>not user_profile\<close> holds for \<^verbatim>\<open>None\<close> and for the empty dictionary.
\<close>

definition default_guest :: pydict where
  "default_guest =
     [(''user_id'', PStr ''default_guest''),
      (''tier'', PStr ''standard''),
      (''custom_budget_limit'', PNum (1 / 10)),
      (''preference'', PStr ''user has a neutral preference for news content'')]"

definition effective_profile :: "pydict option \<Rightarrow> pydict" where
  "effective_profile user_profile =
     (case user_profile of
        None \<Rightarrow> default_guest
      | Some d \<Rightarrow> (if d = [] then default_guest else d))"

definition handle_payment_required :: "world \<Rightarrow> string \<Rightarrow> pydict option \<Rightarrow> string act" where
  "handle_payment_required w payment_info user_profile =
     (let profile = effective_profile user_profile
      in emit (Accountant (PStr payment_info) profile)
              (accountant w (PStr payment_info) profile))"

text \<open>
  \<^verbatim>\<open>
  async def run(self, user_profile=None):
      if not self.agent_runnable:
          await self.create_news_agent()
      ...
      result = await self.agent_runnable.ainvoke(inputs)
      agent_response = result["messages"][-1].content
      payment_info = agent_response.strip()
      if payment_info:
          return await self._handle_payment_required(payment_info)
      return agent_response
  \<close>
  The call passes no profile, so the handler's \<^verbatim>\<open>user_profile\<close> is its default
  \<^verbatim>\<open>None\<close>; the parameter of \<open>run\<close> is never read.
\<close>

definition run :: "world \<Rightarrow> string \<Rightarrow> pydict option \<Rightarrow> string act" where
  "run w context user_profile =
     act_bind (emit CreateAgent (get_tools w)) (\<lambda>_.
     act_bind (emit (Invoke (user_input context)) (ainvoke w (user_input context)))
       (\<lambda>agent_response.
          let payment_info = py_strip agent_response
          in if payment_info \<noteq> [] then handle_payment_required w payment_info None
             else ret agent_response))"

text \<open>
  \<^verbatim>\<open>
  agent = NewsRetrievalAgent(context)
  try:
      result = await agent.run(user_profile=user_profile)
      return result
  finally:
      await agent.cleanup()
  \<close>
  The constructor builds the chat model and runs before the \<^verbatim>\<open>try\<close>. \<^verbatim>\<open>cleanup\<close>
  swallows every exception of the disconnect, so it cannot raise.
\<close>

definition retriv_run_agent :: "world \<Rightarrow> string \<Rightarrow> pydict option \<Rightarrow> string act" where
  "retriv_run_agent w context user_profile =
     act_bind ([], llm_init w) (\<lambda>_.
       try_finally (run w context user_profile) [Cleanup])"

text \<open>
  The tool server marks a payment demand with the key \<^verbatim>\<open>__402_payment_required__\<close>,
  and the agent's system prompt tells it to answer with exactly that JSON string.
\<close>

definition carries_402 :: "string \<Rightarrow> bool" where
  "carries_402 s = is_infix ''__402_payment_required__'' s"

section \<open>The accountant test cycle (main.py)\<close>

text \<open>
  \<^verbatim>\<open>re.search(r"PAYMENT_SUCCESSFUL:\s*([A-Za-z0-9]+)", agent_res)\<close>: the leftmost
  position where the literal matches and, after the longest run of white space, at least
  one ASCII letter or digit follows; the group is the longest run of letters and digits
  there. White space and alphanumerics are disjoint, so giving back white space never
  produces another match.
\<close>

definition is_alnum :: "char \<Rightarrow> bool" where
  "is_alnum c =
     (let n = (of_char c :: nat)
      in (48 \<le> n \<and> n \<le> 57) \<or> (65 \<le> n \<and> n \<le> 90) \<or> (97 \<le> n \<and> n \<le> 122))"

fun drop_prefix :: "string \<Rightarrow> string \<Rightarrow> string option" where
  "drop_prefix s [] = Some s"
| "drop_prefix [] (p # ps) = None"
| "drop_prefix (c # cs) (p # ps) = (if c = p then drop_prefix cs ps else None)"

definition match_at :: "string \<Rightarrow> string option" where
  "match_at s =
     (case drop_prefix s ''PAYMENT_SUCCESSFUL:'' of
        None \<Rightarrow> None
      | Some rest \<Rightarrow>
          (let g = takeWhile is_alnum (dropWhile py_isspace rest)
           in if g = [] then None else Some g))"

fun re_search_tx :: "string \<Rightarrow> string option" where
  "re_search_tx [] = None"
| "re_search_tx (c # cs) =
     (case match_at (c # cs) of
        Some g \<Rightarrow> Some g
      | None \<Rightarrow> re_search_tx cs)"

definition server_url :: string where
  "server_url = ''http://localhost:8000/premium-content''"

definition vip_profile :: pydict where
  "vip_profile =
     [(''user_id'', PStr ''main_tester_01''),
      (''tier'', PStr ''VIP_PLATINUM''),
      (''custom_budget_limit'', PNum (1 / 10)),
      (''preference'', PStr ''the user is very interested in crypto market'')]"

text \<open>
  What one run of the test cycle reports: the content server could not be reached; the
  paid content was retrieved; the redemption was refused (with the response text); the
  accountant's answer names a successful payment but no transaction hash follows it
  (nothing is printed); the accountant did not pay; the server answered 200 at once; or
  it answered with another status.
\<close>

datatype outcome =
    ConnectionFailed
  | ContentRetrieved pyval
  | VerificationFailed string
  | NoTxHash
  | NoPayment
  | Status200
  | UnexpectedStatus nat

text \<open>\<^verbatim>\<open>Response.json()\<close> raises when the body is not JSON.\<close>

definition resp_json :: "response \<Rightarrow> pyval act" where
  "resp_json r =
     ([], case json_body r of None \<Rightarrow> Inl JSONDecodeError | Some v \<Rightarrow> Inr v)"

text \<open>
  \<^verbatim>\<open>
  try:
      try:
          resp = requests.get(server_url)
      except requests.exceptions.ConnectionError:
          return
      if resp.status_code == 402:
          payload = resp.json()
          agent_res = await run_accountant_service(payload, user_profile=vip_profile)
          if "PAYMENT_SUCCESSFUL" in agent_res:
              match = re.search(r"PAYMENT_SUCCESSFUL:\s*([A-Za-z0-9]+)", agent_res)
              if match:
                  tx_hash = match.group(1).strip()
                  await asyncio.sleep(10)
                  final_resp = requests.get(server_url,
                                            headers={"Authorization": f"Bearer {tx_hash}"})
                  if final_resp.status_code == 200:
                      print(json.dumps(final_resp.json(), ...))
                  else:
                      print(f"Verification Failed: {final_resp.text}")
          else:
              print("Agent did not execute payment.")
      elif resp.status_code == 200: ...
      else: ...
  finally:
      if mcp_process:
          mcp_process.terminate()
  \<close>
  The first argument of \<open>http_get\<close> counts the requests this invocation has sent before.
\<close>

definition test_accountant_agent :: "world \<Rightarrow> outcome act" where
  "test_accountant_agent w =
     try_finally
       (case http_get w 0 server_url [] of
          Inl e \<Rightarrow>
            (if e = ConnectionError then ([HttpGet server_url []], Inr ConnectionFailed)
             else ([HttpGet server_url []], Inl e))
        | Inr resp \<Rightarrow>
            act_bind (emit (HttpGet server_url []) (Inr resp)) (\<lambda>_.
            if status_code resp = 402 then
              act_bind (resp_json resp) (\<lambda>payload.
              act_bind (emit (Accountant payload vip_profile) (accountant w payload vip_profile))
                (\<lambda>agent_res.
                if is_infix ''PAYMENT_SUCCESSFUL'' agent_res then
                  (case re_search_tx agent_res of
                     Some g \<Rightarrow>
                       (let tx_hash = py_strip g;
                            headers = [(''Authorization'', ''Bearer '' @ tx_hash)]
                        in act_bind (emit (Sleep 10) (Inr ())) (\<lambda>_.
                           act_bind (emit (HttpGet server_url headers)
                                          (http_get w 1 server_url headers))
                             (\<lambda>final_resp.
                                if status_code final_resp = 200 then
                                  act_bind (resp_json final_resp)
                                    (\<lambda>content. ret (ContentRetrieved content))
                                else ret (VerificationFailed (text_body final_resp)))))
                   | None \<Rightarrow> ret NoTxHash)
                else ret NoPayment))
            else if status_code resp = 200 then ret Status200
            else ret (UnexpectedStatus (status_code resp))))
       (if mcp_process w then [Terminate] else [])"

text \<open>
  Reading a trace: the settlement is submitted by the accountant call, confirmation is
  awaited by the sleep, and a redemption is a GET that carries an
  \<^verbatim>\<open>Authorization\<close> header.
\<close>

definition is_submit :: "event \<Rightarrow> bool" where
  "is_submit ev = (case ev of Accountant _ _ \<Rightarrow> True | _ \<Rightarrow> False)"

definition is_wait :: "event \<Rightarrow> bool" where
  "is_wait ev = (case ev of Sleep _ \<Rightarrow> True | _ \<Rightarrow> False)"

definition is_redeem :: "event \<Rightarrow> bool" where
  "is_redeem ev =
     (case ev of HttpGet _ headers \<Rightarrow> map_of headers ''Authorization'' \<noteq> None | _ \<Rightarrow> False)"

text \<open>Every event satisfying \<open>Q\<close> has an event satisfying \<open>P\<close> strictly before it.\<close>

definition strictly_precedes :: "(event \<Rightarrow> bool) \<Rightarrow> (event \<Rightarrow> bool) \<Rightarrow> event list \<Rightarrow> bool" where
  "strictly_precedes P Q tr =
     (\<forall>k \<in> {..<length tr}. Q (tr ! k) \<longrightarrow> (\<exists>i \<in> {..<k}. P (tr ! i)))"

section \<open>The profile store (database.py)\<close>

subsection \<open>JSON text of a list of strings\<close>

























text \<open>The dictionary that \<^verbatim>\<open>get_user_profile\<close> returns: the row, with the two lists parsed.\<close>

record profile =
  user_id :: string
  name :: string
  email :: string
  timezone :: string
  preferred_notification_times :: "string list"
  content_preferences :: "string list"
  created_at :: nat
  updated_at :: nat






section \<open>The payment challenge codec and the budget policy engine\<close>

text \<open>
  Modelled from the spec: the data model of section 3. The accountant module
  (\<^verbatim>\<open>agents/accountant.py\<close>), which would hold the decoding of a challenge and the
  payment decision, is not among the sources. A challenge has an amount, an asset, a
  recipient, a reference and an optional expiry (an absolute time); the URL of the gated
  resource is kept by the orchestrator and is not a field of the wire payload.
\<close>

record payment_challenge =
  amount :: rat
  asset :: string
  recipient :: string
  reference :: string
  expiry :: "rat option"

text \<open>
  Modelled from the spec: the budget profile of section 3 (identifier, tier, budget
  limit, free-form preference).
\<close>

record budget_profile =
  profile_identifier :: string
  tier :: string
  budget_limit :: rat
  preference :: string

text \<open>
  Modelled from the spec: the decision of section 4.2, approve or reject with a reason,
  and the policy rejections of section 7 (expired, over budget, policy fit).
\<close>

datatype reject_reason = Expired | OverBudget | PolicyFit

datatype decision = Approve | Reject reject_reason

text \<open>
  Modelled from the spec: step 1 of the algorithm of section 4.2, "the expiry is set and
  already passed". The current time is an argument.
\<close>

definition expired :: "rat \<Rightarrow> payment_challenge \<Rightarrow> bool" where
  "expired now ch = (case expiry ch of None \<Rightarrow> False | Some t \<Rightarrow> t < now)"

text \<open>
  Modelled from the spec: \<^verbatim>\<open>decide\<close> of section 4.2, whose module is not among the
  sources. The steps in the spec's order: an expiry that is set and already passed
  rejects with \<^verbatim>\<open>expired\<close>; an amount above the budget limit rejects with
  \<^verbatim>\<open>over_budget\<close>; otherwise the challenge is approved, unless the optional advisory
  step (any predicate of the challenge and the profile, the preference text included)
  turns the approval into a rejection for policy fit.
\<close>

definition decide ::
  "(payment_challenge \<Rightarrow> budget_profile \<Rightarrow> bool) \<Rightarrow> rat \<Rightarrow>
     payment_challenge \<Rightarrow> budget_profile \<Rightarrow> decision" where
  "decide advisory now ch profile =
     (if expired now ch then Reject Expired
      else if amount ch > budget_limit profile then Reject OverBudget
      else if advisory ch profile then Approve
      else Reject PolicyFit)"








section \<open>Scenarios\<close>

text \<open>
  Concrete worlds on which the theorems below are exercised: an agent that answers with
  ordinary news, one whose invocation fails in the transport, one that answers with the
  payment marker, and content servers for a confirmed payment, for a confirmation that
  arrives late (two refusals, then success), and for a success page that is not JSON.
\<close>

definition ordinary_news :: string where
  "ordinary_news = ''Found 1 news articles: Apple shares rose 2 percent after strong earnings.''"

definition world_ordinary :: world where
  "world_ordinary =
     \<lparr> llm_init = Inr (), get_tools = Inr (),
       ainvoke = (\<lambda>_. Inr ordinary_news),
       accountant = (\<lambda>_ _. Inr ''REJECTED: no payment request found''),
       http_get = (\<lambda>_ _ _. Inl ConnectionError),
       mcp_process = False \<rparr>"

definition world_transport_error :: world where
  "world_transport_error =
     \<lparr> llm_init = Inr (), get_tools = Inr (),
       ainvoke = (\<lambda>_. Inl ConnectionError),
       accountant = (\<lambda>_ _. Inr ''REJECTED''),
       http_get = (\<lambda>_ _ _. Inl ConnectionError),
       mcp_process = False \<rparr>"

definition world_402 :: world where
  "world_402 =
     \<lparr> llm_init = Inr (), get_tools = Inr (),
       ainvoke = (\<lambda>_. Inr (''{'' @ [CHR 0x22] @ ''__402_payment_required__'' @ [CHR 0x22] @ '': true}'')),
       accountant = (\<lambda>info profile.
          if profile = default_guest then Inr ''REJECTED'' else Inr ''PAYMENT_SUCCESSFUL: abc123''),
       http_get = (\<lambda>_ _ _. Inl ConnectionError),
       mcp_process = False \<rparr>"

definition world_confirmed :: world where
  "world_confirmed =
     \<lparr> llm_init = Inr (), get_tools = Inr (),
       ainvoke = (\<lambda>_. Inr []),
       accountant = (\<lambda>_ _. Inr ''PAYMENT_SUCCESSFUL: 5hT9xQ2 (0.05 SOL sent)''),
       http_get = (\<lambda>n url headers.
          if n = 0 then
            Inr \<lparr>status_code = 402, text_body = ''payment required'',
                 json_body = Some (PDict [(''amount'', PNum (1 / 20)), (''asset'', PStr ''SOL''),
                      (''recipient'', PStr ''X''), (''reference'', PStr ''r1'')])\<rparr>
          else
            Inr \<lparr>status_code = 200, text_body = ''ok'',
                 json_body = Some (PDict [(''content'', PStr ''premium article'')])\<rparr>),
       mcp_process = True \<rparr>"

definition world_scenario_F :: world where
  "world_scenario_F =
     \<lparr> llm_init = Inr (), get_tools = Inr (),
       ainvoke = (\<lambda>_. Inr []),
       accountant = (\<lambda>_ _. Inr ''PAYMENT_SUCCESSFUL: 5hT9xQ2 (0.05 SOL sent)''),
       http_get = (\<lambda>n url headers.
          if n = 0 then
            Inr \<lparr>status_code = 402, text_body = ''payment required'',
                 json_body = Some (PDict [(''amount'', PNum (1 / 20)), (''asset'', PStr ''SOL''),
                      (''recipient'', PStr ''X''), (''reference'', PStr ''r1'')])\<rparr>
          else if n < 3 then
            Inr \<lparr>status_code = 402, text_body = ''not_yet_confirmed'', json_body = None\<rparr>
          else
            Inr \<lparr>status_code = 200, text_body = ''ok'',
                 json_body = Some (PDict [(''content'', PStr ''premium article'')])\<rparr>),
       mcp_process = False \<rparr>"

definition world_html_body :: world where
  "world_html_body =
     \<lparr> llm_init = Inr (), get_tools = Inr (),
       ainvoke = (\<lambda>_. Inr []),
       accountant = (\<lambda>_ _. Inr ''PAYMENT_SUCCESSFUL: 5hT9xQ2''),
       http_get = (\<lambda>n url headers.
          if n = 0 then
            Inr \<lparr>status_code = 402, text_body = ''payment required'',
                 json_body = Some (PDict [(''amount'', PNum (1 / 20)), (''asset'', PStr ''SOL''),
                      (''recipient'', PStr ''X''), (''reference'', PStr ''r1'')])\<rparr>
          else
            Inr \<lparr>status_code = 200, text_body = ''<html>premium article</html>'',
                 json_body = None\<rparr>),
       mcp_process = False \<rparr>"

text \<open>The calls of the \<^verbatim>\<open>finally\<close> block of the test cycle.\<close>

definition finalizer :: "world \<Rightarrow> event list" where
  "finalizer w = (if mcp_process w then [Terminate] else [])"


definition challenge_A :: payment_challenge where
  "challenge_A = \<lparr>amount = 1 / 20, asset = ''SOL'', recipient = ''X'', reference = ''r1'',
                   expiry = None\<rparr>"

definition challenge_expired :: payment_challenge where
  "challenge_expired = \<lparr>amount = 1 / 2, asset = ''SOL'', recipient = ''X'', reference = ''r1'',
                   expiry = Some 5\<rparr>"

definition profile_B :: budget_profile where
  "profile_B = \<lparr>profile_identifier = ''default_guest'', tier = ''standard'', budget_limit = 1 / 10,
                 preference = ''user has a neutral preference for news content''\<rparr>"




section \<open>Verification: the news retrieval agent\<close>

lemmas act_defs = ret_def emit_def act_bind_def try_finally_def

lemmas retriv_defs = retriv_run_agent_def run_def handle_payment_required_def
  effective_profile_def act_defs Let_def

text \<open>
  Claim C2 says that \<open>retriv_run_agent\<close> never lets an exception pass and always returns
  one of four result variants. The function has a \<^verbatim>\<open>try\<close> with a \<^verbatim>\<open>finally\<close> and no
  \<^verbatim>\<open>except\<close>: when the agent's invocation fails in the transport, the clean-up runs
  and the error reaches the caller.
\<close>

theorem retriv_run_agent_raises_counterexample:
  "retriv_run_agent world_transport_error ''AAPL'' None =
     ([CreateAgent, Invoke (user_input ''AAPL''), Cleanup], Inl ConnectionError)"
  by (simp add: retriv_run_agent_def run_def act_defs world_transport_error_def)

text \<open>
  Claim C2 as amended: \<open>retriv_run_agent\<close> returns a plain string, the agent's (blank)
  response or the accountant's answer, only when no lower component raises; an
  exception raised by the construction of the chat model, by loading the tools, by the
  agent's invocation or by the accountant reaches the caller unchanged; once the agent
  is constructed the clean-up runs exactly once, as the last call, on every path.
\<close>

theorem retriv_run_agent_outcome:
  "(\<forall>s. snd (retriv_run_agent w context p) = Inr s \<longrightarrow>
       llm_init w = Inr () \<and> get_tools w = Inr () \<and>
       (\<exists>resp. ainvoke w (user_input context) = Inr resp \<and>
          (if py_strip resp = [] then s = resp
           else accountant w (PStr (py_strip resp)) default_guest = Inr s))) \<and>
   (\<forall>e. snd (retriv_run_agent w context p) = Inl e \<longrightarrow>
       llm_init w = Inl e \<or>
       get_tools w = Inl e \<or>
       ainvoke w (user_input context) = Inl e \<or>
       (\<exists>resp. ainvoke w (user_input context) = Inr resp \<and>
           accountant w (PStr (py_strip resp)) default_guest = Inl e)) \<and>
   (\<forall>e. llm_init w = Inl e \<or>
        (llm_init w = Inr () \<and> get_tools w = Inl e) \<or>
        (llm_init w = Inr () \<and> get_tools w = Inr () \<and>
            ainvoke w (user_input context) = Inl e) \<or>
        (\<exists>resp. llm_init w = Inr () \<and> get_tools w = Inr () \<and>
            ainvoke w (user_input context) = Inr resp \<and> py_strip resp \<noteq> [] \<and>
            accountant w (PStr (py_strip resp)) default_guest = Inl e)
        \<longrightarrow> snd (retriv_run_agent w context p) = Inl e) \<and>
   (llm_init w = Inr () \<longrightarrow>
       (\<exists>tr. fst (retriv_run_agent w context p) = tr @ [Cleanup] \<and> Cleanup \<notin> set tr))"
  by (auto simp: retriv_defs split: sum.splits)

theorem retriv_run_agent_outcome_witness:
  "snd (retriv_run_agent world_transport_error ''AAPL'' None) = Inl ConnectionError \<and>
   ainvoke world_transport_error (user_input ''AAPL'') = Inl ConnectionError \<and>
   llm_init world_transport_error = Inr () \<and>
   fst (retriv_run_agent world_transport_error ''AAPL'' None) =
     [CreateAgent, Invoke (user_input ''AAPL'')] @ [Cleanup] \<and>
   snd (retriv_run_agent world_ordinary ''AAPL'' None) = Inr ''REJECTED: no payment request found''"
  using retriv_run_agent_outcome [of world_transport_error "''AAPL''" None]
    retriv_run_agent_outcome [of world_ordinary "''AAPL''" None]
  by (simp add: retriv_defs world_transport_error_def world_ordinary_def ordinary_news_def
      py_strip_def py_isspace_def)

text \<open>
  Claim C3 says that the payment handler runs only for a response that carries the 402
  payload, and that ordinary content is returned as it is. \<open>run\<close> tests only that the
  stripped response is not empty: a response of ordinary news, without the marker, is
  handed to the accountant, and the caller receives the accountant's answer in place of
  the news.
\<close>

theorem run_ordinary_content_reaches_accountant:
  "\<not> carries_402 ordinary_news \<and>
   retriv_run_agent world_ordinary ''AAPL'' None =
     ([CreateAgent, Invoke (user_input ''AAPL''),
       Accountant (PStr ordinary_news) default_guest, Cleanup],
      Inr ''REJECTED: no payment request found'')"
  by (simp add: retriv_defs world_ordinary_def ordinary_news_def carries_402_def
      py_strip_def py_isspace_def)

text \<open>
  Claim C8: when the handler is given no profile (\<^verbatim>\<open>None\<close>, which is also what a
  lookup of an unknown user yields, or an empty dictionary) it calls the accountant with
  the default profile, of tier \<^verbatim>\<open>standard\<close> and budget limit 0.1; that limit does not
  exceed the limit of the other profile the sources define. The accountant is never
  handed an empty profile, whatever the caller passed.
\<close>

theorem handle_payment_required_default_profile:
  "(user_profile = None \<or> user_profile = Some [] \<longrightarrow>
      handle_payment_required w payment_info user_profile =
        ([Accountant (PStr payment_info) default_guest],
         accountant w (PStr payment_info) default_guest)) \<and>
   (\<forall>info profile.
       Accountant info profile \<in> set (fst (handle_payment_required w payment_info user_profile))
       \<longrightarrow> profile \<noteq> []) \<and>
   map_of default_guest ''tier'' = Some (PStr ''standard'') \<and>
   map_of default_guest ''custom_budget_limit'' = Some (PNum (1 / 10)) \<and>
   (\<forall>l. map_of vip_profile ''custom_budget_limit'' = Some (PNum l) \<longrightarrow> 1 / 10 \<le> l)"
  by (auto simp: handle_payment_required_def effective_profile_def emit_def Let_def
      default_guest_def vip_profile_def split: option.splits)

theorem handle_payment_required_default_profile_witness:
  "handle_payment_required world_402 ''bill'' None =
     ([Accountant (PStr ''bill'') default_guest], Inr ''REJECTED'') \<and>
   handle_payment_required world_402 ''bill'' (Some []) =
     ([Accountant (PStr ''bill'') default_guest], Inr ''REJECTED'') \<and>
   Accountant (PStr ''bill'') default_guest
     \<in> set (fst (handle_payment_required world_402 ''bill'' None)) \<and>
   default_guest \<noteq> [] \<and>
   map_of vip_profile ''custom_budget_limit'' = Some (PNum (1 / 10)) \<and>
   map_of default_guest ''custom_budget_limit'' = Some (PNum (1 / 10))"
  using handle_payment_required_default_profile [of None world_402 "''bill''"]
    handle_payment_required_default_profile [of "Some []" world_402 "''bill''"]
  by (simp add: world_402_def vip_profile_def default_guest_def)

text \<open>
  Claim C9: \<open>retriv_run_agent\<close> does not depend on the profile its caller passes: two
  calls that differ only in the profile make the same calls and return the same result,
  and every call of the accountant carries the default guest profile (tier
  \<^verbatim>\<open>standard\<close>, budget limit 0.1).
\<close>

theorem retriv_run_agent_ignores_user_profile:
  "retriv_run_agent w context p1 = retriv_run_agent w context p2 \<and>
   (\<forall>info profile.
       Accountant info profile \<in> set (fst (retriv_run_agent w context p1)) \<longrightarrow>
         profile = default_guest \<and>
         map_of profile ''tier'' = Some (PStr ''standard'') \<and>
         map_of profile ''custom_budget_limit'' = Some (PNum (1 / 10)))"
  by (auto simp: retriv_defs default_guest_def split: sum.splits)

theorem retriv_run_agent_ignores_user_profile_witness:
  "retriv_run_agent world_402 ''AAPL'' (Some vip_profile) =
     retriv_run_agent world_402 ''AAPL'' None \<and>
   Accountant (PStr (''{'' @ [CHR 0x22] @ ''__402_payment_required__'' @ [CHR 0x22] @ '': true}''))
       default_guest
     \<in> set (fst (retriv_run_agent world_402 ''AAPL'' (Some vip_profile))) \<and>
   snd (retriv_run_agent world_402 ''AAPL'' (Some vip_profile)) = Inr ''REJECTED''"
  using retriv_run_agent_ignores_user_profile [of world_402 "''AAPL''" "Some vip_profile" None]
  by (simp add: retriv_defs world_402_def py_strip_def py_isspace_def)

section \<open>Verification: the accountant test cycle\<close>

lemmas eval_defs = test_accountant_agent_def act_defs resp_json_def Let_def
  match_at_def is_alnum_def py_isspace_def py_strip_def

text \<open>
  The two shapes of a run. When the first answer is a 402 with a JSON body, the
  accountant reports success and a transaction hash follows the report, the run is:
  request, accountant, sleep, redemption. In every other case no sleep and no redemption
  happen.
\<close>

lemma test_accountant_agent_redeems:
  assumes "http_get w 0 server_url [] = Inr resp" "status_code resp = 402"
    "json_body resp = Some payload" "accountant w payload vip_profile = Inr res"
    "is_infix ''PAYMENT_SUCCESSFUL'' res" "re_search_tx res = Some g"
  shows "test_accountant_agent w =
     ([HttpGet server_url [], Accountant payload vip_profile, Sleep 10,
       HttpGet server_url [(''Authorization'', ''Bearer '' @ py_strip g)]] @ finalizer w,
      (case http_get w 1 server_url [(''Authorization'', ''Bearer '' @ py_strip g)] of
         Inl e \<Rightarrow> Inl e
       | Inr r \<Rightarrow>
           if status_code r = 200
           then (case json_body r of None \<Rightarrow> Inl JSONDecodeError | Some c \<Rightarrow> Inr (ContentRetrieved c))
           else Inr (VerificationFailed (text_body r))))"
  using assms
  by (auto simp: test_accountant_agent_def act_defs resp_json_def Let_def finalizer_def
      split: sum.splits option.splits)

lemma test_accountant_agent_no_redeem:
  assumes "\<not> (\<exists>resp payload res g. http_get w 0 server_url [] = Inr resp \<and> status_code resp = 402 \<and>
    json_body resp = Some payload \<and> accountant w payload vip_profile = Inr res \<and>
    is_infix ''PAYMENT_SUCCESSFUL'' res \<and> re_search_tx res = Some g)"
  shows "\<exists>core. fst (test_accountant_agent w) = HttpGet server_url [] # core @ finalizer w \<and>
     (core = [] \<or> (\<exists>payload. core = [Accountant payload vip_profile]))"
  using assms
  by (auto simp: test_accountant_agent_def act_defs resp_json_def Let_def finalizer_def
      split: sum.splits option.splits)

lemma strictly_precedes_iff:
  "strictly_precedes P Q tr \<longleftrightarrow> (\<forall>k<length tr. Q (tr ! k) \<longrightarrow> (\<exists>i<k. P (tr ! i)))"
  by (auto simp: strictly_precedes_def)

lemma finalizer_cases: "finalizer w = [] \<or> finalizer w = [Terminate]"
  by (simp add: finalizer_def)

lemma precedes_paid:
  "fin = [] \<or> fin = [Terminate] \<Longrightarrow>
   strictly_precedes is_submit is_wait ([HttpGet u [], Accountant p q, Sleep n, HttpGet u' h] @ fin) \<and>
   strictly_precedes is_wait is_redeem ([HttpGet u [], Accountant p q, Sleep n, HttpGet u' h] @ fin)"
  by (auto simp: strictly_precedes_iff is_submit_def is_wait_def is_redeem_def nth_Cons'
       split: if_splits)

lemma precedes_unpaid:
  "fin = [] \<or> fin = [Terminate] \<Longrightarrow> core = [] \<or> core = [Accountant p q] \<Longrightarrow>
   strictly_precedes is_submit is_wait (HttpGet u [] # core @ fin) \<and>
   strictly_precedes is_wait is_redeem (HttpGet u [] # core @ fin) \<and>
   \<not> (\<exists>ev\<in>set (HttpGet u [] # core @ fin). is_redeem ev) \<and>
   \<not> (\<exists>ev\<in>set (HttpGet u [] # core @ fin). is_wait ev)"
  by (elim disjE; simp add: strictly_precedes_iff is_submit_def is_wait_def is_redeem_def
       nth_Cons' less_Suc_eq)

lemma count_paid:
  "fin = [] \<or> fin = [Terminate] \<Longrightarrow>
   filter is_redeem ([HttpGet u [], Accountant p q, Sleep n, HttpGet u' [(''Authorization'', h)]] @ fin)
     = [HttpGet u' [(''Authorization'', h)]] \<and>
   filter is_wait ([HttpGet u [], Accountant p q, Sleep n, HttpGet u' [(''Authorization'', h)]] @ fin)
     = [Sleep n]"
  by (elim disjE; simp add: is_wait_def is_redeem_def)

lemma count_unpaid:
  "fin = [] \<or> fin = [Terminate] \<Longrightarrow> core = [] \<or> core = [Accountant p q] \<Longrightarrow>
   filter is_redeem (HttpGet u [] # core @ fin) = [] \<and>
   filter is_wait (HttpGet u [] # core @ fin) = []"
  by (elim disjE; simp add: is_wait_def is_redeem_def)

text \<open>
  Claim C5: in every run of the test cycle the accountant call (the submission) comes
  strictly before the sleep (the wait for confirmation), which comes strictly before
  every redemption; and a redemption is issued only when the accountant returned a
  report that contains \<^verbatim>\<open>PAYMENT_SUCCESSFUL\<close> followed by a transaction hash. When
  the accountant raises, or reports no success, no redemption is issued.
\<close>

theorem test_accountant_agent_ordering:
  "strictly_precedes is_submit is_wait (fst (test_accountant_agent w)) \<and>
   strictly_precedes is_wait is_redeem (fst (test_accountant_agent w)) \<and>
   ((\<exists>ev\<in>set (fst (test_accountant_agent w)). is_redeem ev) \<longrightarrow>
      (\<exists>payload res g. Accountant payload vip_profile \<in> set (fst (test_accountant_agent w)) \<and>
         accountant w payload vip_profile = Inr res \<and>
         is_infix ''PAYMENT_SUCCESSFUL'' res \<and> re_search_tx res = Some g))"
proof (cases "\<exists>resp payload res g. http_get w 0 server_url [] = Inr resp \<and>
    status_code resp = 402 \<and> json_body resp = Some payload \<and>
    accountant w payload vip_profile = Inr res \<and>
    is_infix ''PAYMENT_SUCCESSFUL'' res \<and> re_search_tx res = Some g")
  case True
  then obtain resp payload res g where h: "http_get w 0 server_url [] = Inr resp"
    "status_code resp = 402" "json_body resp = Some payload"
    "accountant w payload vip_profile = Inr res"
    "is_infix ''PAYMENT_SUCCESSFUL'' res" "re_search_tx res = Some g"
    by blast
  have tr: "fst (test_accountant_agent w) =
      [HttpGet server_url [], Accountant payload vip_profile, Sleep 10,
       HttpGet server_url [(''Authorization'', ''Bearer '' @ py_strip g)]] @ finalizer w"
    by (simp add: test_accountant_agent_redeems [OF h])
  have ord: "strictly_precedes is_submit is_wait (fst (test_accountant_agent w)) \<and>
      strictly_precedes is_wait is_redeem (fst (test_accountant_agent w))"
    unfolding tr by (rule precedes_paid [OF finalizer_cases])
  have "Accountant payload vip_profile \<in> set (fst (test_accountant_agent w))"
    by (simp add: tr)
  with h(4-6) have "\<exists>payload res g.
      Accountant payload vip_profile \<in> set (fst (test_accountant_agent w)) \<and>
      accountant w payload vip_profile = Inr res \<and>
      is_infix ''PAYMENT_SUCCESSFUL'' res \<and> re_search_tx res = Some g"
    by (intro exI conjI)
  with ord show ?thesis by simp
next
  case False
  from test_accountant_agent_no_redeem [OF False] obtain core where
    tr: "fst (test_accountant_agent w) = HttpGet server_url [] # core @ finalizer w"
    and core: "core = [] \<or> (\<exists>payload. core = [Accountant payload vip_profile])"
    by blast
  from core obtain payload where c: "core = [] \<or> core = [Accountant payload vip_profile]"
    by blast
  have "strictly_precedes is_submit is_wait (fst (test_accountant_agent w)) \<and>
      strictly_precedes is_wait is_redeem (fst (test_accountant_agent w)) \<and>
      \<not> (\<exists>ev\<in>set (fst (test_accountant_agent w)). is_redeem ev) \<and>
      \<not> (\<exists>ev\<in>set (fst (test_accountant_agent w)). is_wait ev)"
    unfolding tr by (rule precedes_unpaid [OF finalizer_cases c])
  then show ?thesis by simp
qed

theorem test_accountant_agent_ordering_witness:
  "strictly_precedes is_submit is_wait (fst (test_accountant_agent world_confirmed)) \<and>
   strictly_precedes is_wait is_redeem (fst (test_accountant_agent world_confirmed)) \<and>
   HttpGet server_url [(''Authorization'', ''Bearer 5hT9xQ2'')]
      \<in> set (fst (test_accountant_agent world_confirmed)) \<and>
   is_redeem (HttpGet server_url [(''Authorization'', ''Bearer 5hT9xQ2'')]) \<and>
   (\<exists>payload res g.
       Accountant payload vip_profile \<in> set (fst (test_accountant_agent world_confirmed)) \<and>
       accountant world_confirmed payload vip_profile = Inr res \<and>
       is_infix ''PAYMENT_SUCCESSFUL'' res \<and> re_search_tx res = Some g)"
proof -
  have m: "HttpGet server_url [(''Authorization'', ''Bearer 5hT9xQ2'')]
      \<in> set (fst (test_accountant_agent world_confirmed))"
    by (simp add: eval_defs world_confirmed_def)
  have r: "is_redeem (HttpGet server_url [(''Authorization'', ''Bearer 5hT9xQ2'')])"
    by (simp add: is_redeem_def)
  from r m have ex: "\<exists>ev\<in>set (fst (test_accountant_agent world_confirmed)). is_redeem ev"
    by (rule bexI)
  note T = test_accountant_agent_ordering [of world_confirmed]
  from T have a: "strictly_precedes is_submit is_wait (fst (test_accountant_agent world_confirmed))"
    by (rule conjunct1)
  from T have b: "strictly_precedes is_wait is_redeem (fst (test_accountant_agent world_confirmed))"
    by (rule conjunct1 [OF conjunct2])
  from T have c: "(\<exists>ev\<in>set (fst (test_accountant_agent world_confirmed)). is_redeem ev) \<longrightarrow>
     (\<exists>payload res g.
         Accountant payload vip_profile \<in> set (fst (test_accountant_agent world_confirmed)) \<and>
         accountant world_confirmed payload vip_profile = Inr res \<and>
         is_infix ''PAYMENT_SUCCESSFUL'' res \<and> re_search_tx res = Some g)"
    by (rule conjunct2 [OF conjunct2])
  from c ex have d: "\<exists>payload res g.
         Accountant payload vip_profile \<in> set (fst (test_accountant_agent world_confirmed)) \<and>
         accountant world_confirmed payload vip_profile = Inr res \<and>
         is_infix ''PAYMENT_SUCCESSFUL'' res \<and> re_search_tx res = Some g"
    by (rule mp)
  from a b m r d show ?thesis by (intro conjI)
qed

text \<open>
  Claim C6 says that a redemption answered with \<^verbatim>\<open>not_yet_confirmed\<close> is retried,
  up to three attempts, and that two such answers followed by a success end in the
  content after exactly three attempts. The test cycle sleeps once and redeems once:
  with a server that would refuse twice and accept the third attempt, the run ends in a
  failed verification after a single redemption.
\<close>

theorem scenario_F_single_attempt_counterexample:
  "http_get world_scenario_F 1 server_url [(''Authorization'', ''Bearer 5hT9xQ2'')] =
      Inr \<lparr>status_code = 402, text_body = ''not_yet_confirmed'', json_body = None\<rparr> \<and>
   http_get world_scenario_F 2 server_url [(''Authorization'', ''Bearer 5hT9xQ2'')] =
      Inr \<lparr>status_code = 402, text_body = ''not_yet_confirmed'', json_body = None\<rparr> \<and>
   http_get world_scenario_F 3 server_url [(''Authorization'', ''Bearer 5hT9xQ2'')] =
      Inr \<lparr>status_code = 200, text_body = ''ok'',
           json_body = Some (PDict [(''content'', PStr ''premium article'')])\<rparr> \<and>
   snd (test_accountant_agent world_scenario_F) = Inr (VerificationFailed ''not_yet_confirmed'') \<and>
   filter is_redeem (fst (test_accountant_agent world_scenario_F)) =
      [HttpGet server_url [(''Authorization'', ''Bearer 5hT9xQ2'')]]"
  by (simp add: eval_defs world_scenario_F_def is_redeem_def)

text \<open>
  Claim C6 as amended: every run issues at most one redemption, after a single sleep
  of ten seconds, and never retries: when the redemption is answered with any status
  other than 200 (\<^verbatim>\<open>not_yet_confirmed\<close> included), the run ends in a failed
  verification that carries the response text.
\<close>

theorem test_accountant_agent_single_redeem:
  "length (filter is_redeem (fst (test_accountant_agent w))) \<le> 1 \<and>
   (filter is_wait (fst (test_accountant_agent w)) = [] \<or>
    filter is_wait (fst (test_accountant_agent w)) = [Sleep 10]) \<and>
   (\<forall>url headers r.
       HttpGet url headers \<in> set (fst (test_accountant_agent w)) \<longrightarrow>
       is_redeem (HttpGet url headers) \<longrightarrow>
       http_get w 1 url headers = Inr r \<longrightarrow> status_code r \<noteq> 200 \<longrightarrow>
       snd (test_accountant_agent w) = Inr (VerificationFailed (text_body r)))"
proof (cases "\<exists>resp payload res g. http_get w 0 server_url [] = Inr resp \<and>
    status_code resp = 402 \<and> json_body resp = Some payload \<and>
    accountant w payload vip_profile = Inr res \<and>
    is_infix ''PAYMENT_SUCCESSFUL'' res \<and> re_search_tx res = Some g")
  case True
  then obtain resp payload res g where h: "http_get w 0 server_url [] = Inr resp"
    "status_code resp = 402" "json_body resp = Some payload"
    "accountant w payload vip_profile = Inr res"
    "is_infix ''PAYMENT_SUCCESSFUL'' res" "re_search_tx res = Some g"
    by blast
  note full = test_accountant_agent_redeems [OF h]
  have tr: "fst (test_accountant_agent w) =
      [HttpGet server_url [], Accountant payload vip_profile, Sleep 10,
       HttpGet server_url [(''Authorization'', ''Bearer '' @ py_strip g)]] @ finalizer w"
    by (simp add: full)
  note cnt = count_paid [OF finalizer_cases, of server_url payload vip_profile 10 server_url
      "''Bearer '' @ py_strip g" w, folded tr]
  have a: "length (filter is_redeem (fst (test_accountant_agent w))) \<le> 1"
    by (simp add: cnt)
  have b: "filter is_wait (fst (test_accountant_agent w)) = [Sleep 10]"
    by (simp add: cnt)
  have c: "snd (test_accountant_agent w) = Inr (VerificationFailed (text_body r))"
    if "HttpGet url headers \<in> set (fst (test_accountant_agent w))"
      "is_redeem (HttpGet url headers)" "http_get w 1 url headers = Inr r"
      "status_code r \<noteq> 200" for url headers r
  proof -
    from that(1,2) have "HttpGet url headers \<in> set (filter is_redeem (fst (test_accountant_agent w)))"
      by simp
    then have "url = server_url \<and> headers = [(''Authorization'', ''Bearer '' @ py_strip g)]"
      by (simp add: cnt)
    with that(3,4) show ?thesis by (simp add: full)
  qed
  from a b c show ?thesis by blast
next
  case False
  from test_accountant_agent_no_redeem [OF False] obtain core where
    tr: "fst (test_accountant_agent w) = HttpGet server_url [] # core @ finalizer w"
    and core: "core = [] \<or> (\<exists>payload. core = [Accountant payload vip_profile])"
    by blast
  from core obtain payload where c: "core = [] \<or> core = [Accountant payload vip_profile]"
    by blast
  note cnt = count_unpaid [OF finalizer_cases c, of server_url w, folded tr]
  have a: "length (filter is_redeem (fst (test_accountant_agent w))) \<le> 1"
    by (simp add: cnt)
  have b: "filter is_wait (fst (test_accountant_agent w)) = []"
    by (simp add: cnt)
  have n: "\<not> (HttpGet url headers \<in> set (fst (test_accountant_agent w)) \<and>
      is_redeem (HttpGet url headers))" for url headers
  proof
    assume "HttpGet url headers \<in> set (fst (test_accountant_agent w)) \<and>
      is_redeem (HttpGet url headers)"
    then have "HttpGet url headers \<in> set (filter is_redeem (fst (test_accountant_agent w)))"
      by simp
    then show False by (simp add: cnt)
  qed
  from a b n show ?thesis by blast
qed

theorem test_accountant_agent_single_redeem_witness:
  "HttpGet server_url [(''Authorization'', ''Bearer 5hT9xQ2'')]
      \<in> set (fst (test_accountant_agent world_scenario_F)) \<and>
   is_redeem (HttpGet server_url [(''Authorization'', ''Bearer 5hT9xQ2'')]) \<and>
   http_get world_scenario_F 1 server_url [(''Authorization'', ''Bearer 5hT9xQ2'')] =
      Inr \<lparr>status_code = 402, text_body = ''not_yet_confirmed'', json_body = None\<rparr> \<and>
   status_code \<lparr>status_code = 402, text_body = ''not_yet_confirmed'', json_body = None\<rparr> \<noteq> 200 \<and>
   snd (test_accountant_agent world_scenario_F) = Inr (VerificationFailed ''not_yet_confirmed'') \<and>
   length (filter is_redeem (fst (test_accountant_agent world_scenario_F))) \<le> 1"
proof -
  have m: "HttpGet server_url [(''Authorization'', ''Bearer 5hT9xQ2'')]
      \<in> set (fst (test_accountant_agent world_scenario_F))"
    by (simp add: eval_defs world_scenario_F_def)
  have r: "is_redeem (HttpGet server_url [(''Authorization'', ''Bearer 5hT9xQ2'')])"
    by (simp add: is_redeem_def)
  have g: "http_get world_scenario_F 1 server_url [(''Authorization'', ''Bearer 5hT9xQ2'')] =
      Inr \<lparr>status_code = 402, text_body = ''not_yet_confirmed'', json_body = None\<rparr>"
    by (simp add: world_scenario_F_def)
  have s: "status_code \<lparr>status_code = 402, text_body = ''not_yet_confirmed'', json_body = None\<rparr> \<noteq> 200"
    by simp
  note T = test_accountant_agent_single_redeem [of world_scenario_F]
  from T have a: "length (filter is_redeem (fst (test_accountant_agent world_scenario_F))) \<le> 1"
    by (rule conjunct1)
  from T have "\<forall>url headers r.
       HttpGet url headers \<in> set (fst (test_accountant_agent world_scenario_F)) \<longrightarrow>
       is_redeem (HttpGet url headers) \<longrightarrow>
       http_get world_scenario_F 1 url headers = Inr r \<longrightarrow> status_code r \<noteq> 200 \<longrightarrow>
       snd (test_accountant_agent world_scenario_F) = Inr (VerificationFailed (text_body r))"
    by (rule conjunct2 [OF conjunct2])
  from this [rule_format, OF m r g s]
  have v: "snd (test_accountant_agent world_scenario_F) = Inr (VerificationFailed ''not_yet_confirmed'')"
    by simp
  from m r g s v a show ?thesis by (intro conjI)
qed

text \<open>
  Claim C7 says that a redemption with status 200 yields the content payload. The
  content is read with \<^verbatim>\<open>final_resp.json()\<close>: a 200 answer whose body is not JSON
  raises a decode error and no content is produced.
\<close>

theorem redeem_non_json_body_counterexample:
  "http_get world_html_body 1 server_url [(''Authorization'', ''Bearer 5hT9xQ2'')] =
      Inr \<lparr>status_code = 200, text_body = ''<html>premium article</html>'', json_body = None\<rparr> \<and>
   test_accountant_agent world_html_body =
     ([HttpGet server_url [],
       Accountant (PDict [(''amount'', PNum (1 / 20)), (''asset'', PStr ''SOL''),
                      (''recipient'', PStr ''X''), (''reference'', PStr ''r1'')]) vip_profile,
       Sleep 10,
       HttpGet server_url [(''Authorization'', ''Bearer 5hT9xQ2'')]],
      Inl JSONDecodeError)"
  by (simp add: eval_defs world_html_body_def)

text \<open>
  Claim C7 as amended: every redemption goes to the URL of the original request and
  carries the single header \<^verbatim>\<open>Authorization: Bearer <hash>\<close>, the hash being the
  one matched in the accountant's report; a 200 answer whose body is valid JSON yields
  that content, and an answer with any other status yields a failed verification with
  the response text.
\<close>

theorem test_accountant_agent_redemption:
  "\<forall>url headers.
     HttpGet url headers \<in> set (fst (test_accountant_agent w)) \<longrightarrow>
     is_redeem (HttpGet url headers) \<longrightarrow>
       url = server_url \<and>
       (\<exists>rest. fst (test_accountant_agent w) = HttpGet server_url [] # rest) \<and>
       (\<exists>payload res g.
           Accountant payload vip_profile \<in> set (fst (test_accountant_agent w)) \<and>
           accountant w payload vip_profile = Inr res \<and>
           re_search_tx res = Some g \<and>
           headers = [(''Authorization'', ''Bearer '' @ py_strip g)]) \<and>
       (\<forall>r. http_get w 1 url headers = Inr r \<longrightarrow>
           (status_code r = 200 \<longrightarrow>
              (\<forall>content. json_body r = Some content \<longrightarrow>
                  snd (test_accountant_agent w) = Inr (ContentRetrieved content))) \<and>
           (status_code r \<noteq> 200 \<longrightarrow>
              snd (test_accountant_agent w) = Inr (VerificationFailed (text_body r))))"
proof (cases "\<exists>resp payload res g. http_get w 0 server_url [] = Inr resp \<and>
    status_code resp = 402 \<and> json_body resp = Some payload \<and>
    accountant w payload vip_profile = Inr res \<and>
    is_infix ''PAYMENT_SUCCESSFUL'' res \<and> re_search_tx res = Some g")
  case True
  then obtain resp payload res g where h: "http_get w 0 server_url [] = Inr resp"
    "status_code resp = 402" "json_body resp = Some payload"
    "accountant w payload vip_profile = Inr res"
    "is_infix ''PAYMENT_SUCCESSFUL'' res" "re_search_tx res = Some g"
    by blast
  note full = test_accountant_agent_redeems [OF h]
  have tr: "fst (test_accountant_agent w) =
      [HttpGet server_url [], Accountant payload vip_profile, Sleep 10,
       HttpGet server_url [(''Authorization'', ''Bearer '' @ py_strip g)]] @ finalizer w"
    by (simp add: full)
  note cnt = count_paid [OF finalizer_cases, of server_url payload vip_profile 10 server_url
      "''Bearer '' @ py_strip g" w, folded tr]
  have first: "\<exists>rest. fst (test_accountant_agent w) = HttpGet server_url [] # rest"
    by (simp add: tr)
  have acc: "Accountant payload vip_profile \<in> set (fst (test_accountant_agent w))"
    by (simp add: tr)
  show ?thesis
  proof (intro allI impI)
    fix url headers
    assume "HttpGet url headers \<in> set (fst (test_accountant_agent w))"
      and "is_redeem (HttpGet url headers)"
    then have "HttpGet url headers \<in> set (filter is_redeem (fst (test_accountant_agent w)))"
      by simp
    then have eq: "url = server_url" "headers = [(''Authorization'', ''Bearer '' @ py_strip g)]"
      by (simp_all add: cnt)
    have ex: "\<exists>payload res g.
           Accountant payload vip_profile \<in> set (fst (test_accountant_agent w)) \<and>
           accountant w payload vip_profile = Inr res \<and>
           re_search_tx res = Some g \<and>
           headers = [(''Authorization'', ''Bearer '' @ py_strip g)]"
      using acc h(4) h(6) eq(2) by (intro exI conjI)
    have out: "\<forall>r. http_get w 1 url headers = Inr r \<longrightarrow>
           (status_code r = 200 \<longrightarrow>
              (\<forall>content. json_body r = Some content \<longrightarrow>
                  snd (test_accountant_agent w) = Inr (ContentRetrieved content))) \<and>
           (status_code r \<noteq> 200 \<longrightarrow>
              snd (test_accountant_agent w) = Inr (VerificationFailed (text_body r)))"
      by (simp add: eq full)
    from eq(1) first ex out
    show "url = server_url \<and>
       (\<exists>rest. fst (test_accountant_agent w) = HttpGet server_url [] # rest) \<and>
       (\<exists>payload res g.
           Accountant payload vip_profile \<in> set (fst (test_accountant_agent w)) \<and>
           accountant w payload vip_profile = Inr res \<and>
           re_search_tx res = Some g \<and>
           headers = [(''Authorization'', ''Bearer '' @ py_strip g)]) \<and>
       (\<forall>r. http_get w 1 url headers = Inr r \<longrightarrow>
           (status_code r = 200 \<longrightarrow>
              (\<forall>content. json_body r = Some content \<longrightarrow>
                  snd (test_accountant_agent w) = Inr (ContentRetrieved content))) \<and>
           (status_code r \<noteq> 200 \<longrightarrow>
              snd (test_accountant_agent w) = Inr (VerificationFailed (text_body r))))"
      by (intro conjI)
  qed
next
  case False
  from test_accountant_agent_no_redeem [OF False] obtain core where
    tr: "fst (test_accountant_agent w) = HttpGet server_url [] # core @ finalizer w"
    and core: "core = [] \<or> (\<exists>payload. core = [Accountant payload vip_profile])"
    by blast
  from core obtain payload where c: "core = [] \<or> core = [Accountant payload vip_profile]"
    by blast
  note cnt = count_unpaid [OF finalizer_cases c, of server_url w, folded tr]
  have n: "\<not> (HttpGet url headers \<in> set (fst (test_accountant_agent w)) \<and>
      is_redeem (HttpGet url headers))" for url headers
  proof
    assume "HttpGet url headers \<in> set (fst (test_accountant_agent w)) \<and>
      is_redeem (HttpGet url headers)"
    then have "HttpGet url headers \<in> set (filter is_redeem (fst (test_accountant_agent w)))"
      by simp
    then show False by (simp add: cnt)
  qed
  then show ?thesis by blast
qed

theorem test_accountant_agent_redemption_witness:
  "HttpGet server_url [(''Authorization'', ''Bearer 5hT9xQ2'')]
      \<in> set (fst (test_accountant_agent world_confirmed)) \<and>
   is_redeem (HttpGet server_url [(''Authorization'', ''Bearer 5hT9xQ2'')]) \<and>
   http_get world_confirmed 1 server_url [(''Authorization'', ''Bearer 5hT9xQ2'')] =
      Inr \<lparr>status_code = 200, text_body = ''ok'',
           json_body = Some (PDict [(''content'', PStr ''premium article'')])\<rparr> \<and>
   snd (test_accountant_agent world_confirmed) =
      Inr (ContentRetrieved (PDict [(''content'', PStr ''premium article'')])) \<and>
   snd (test_accountant_agent world_scenario_F) = Inr (VerificationFailed ''not_yet_confirmed'')"
proof -
  let ?h = "[(''Authorization'', ''Bearer 5hT9xQ2'')]"
  have m: "HttpGet server_url ?h \<in> set (fst (test_accountant_agent world_confirmed))"
    by (simp add: eval_defs world_confirmed_def)
  have r: "is_redeem (HttpGet server_url ?h)"
    by (simp add: is_redeem_def)
  have g: "http_get world_confirmed 1 server_url ?h =
      Inr \<lparr>status_code = 200, text_body = ''ok'',
           json_body = Some (PDict [(''content'', PStr ''premium article'')])\<rparr>"
    by (simp add: world_confirmed_def)
  from test_accountant_agent_redemption [of world_confirmed, rule_format, OF m r]
  have "\<forall>r. http_get world_confirmed 1 server_url ?h = Inr r \<longrightarrow>
           (status_code r = 200 \<longrightarrow>
              (\<forall>content. json_body r = Some content \<longrightarrow>
                  snd (test_accountant_agent world_confirmed) = Inr (ContentRetrieved content))) \<and>
           (status_code r \<noteq> 200 \<longrightarrow>
              snd (test_accountant_agent world_confirmed) = Inr (VerificationFailed (text_body r)))"
    by (rule conjunct2 [OF conjunct2 [OF conjunct2]])
  from this [rule_format, OF g]
  have v: "snd (test_accountant_agent world_confirmed) =
      Inr (ContentRetrieved (PDict [(''content'', PStr ''premium article'')]))"
    by simp
  have m': "HttpGet server_url ?h \<in> set (fst (test_accountant_agent world_scenario_F))"
    by (simp add: eval_defs world_scenario_F_def)
  have g': "http_get world_scenario_F 1 server_url ?h =
      Inr \<lparr>status_code = 402, text_body = ''not_yet_confirmed'', json_body = None\<rparr>"
    by (simp add: world_scenario_F_def)
  from test_accountant_agent_redemption [of world_scenario_F, rule_format, OF m' r]
  have "\<forall>r. http_get world_scenario_F 1 server_url ?h = Inr r \<longrightarrow>
           (status_code r = 200 \<longrightarrow>
              (\<forall>content. json_body r = Some content \<longrightarrow>
                  snd (test_accountant_agent world_scenario_F) = Inr (ContentRetrieved content))) \<and>
           (status_code r \<noteq> 200 \<longrightarrow>
              snd (test_accountant_agent world_scenario_F) = Inr (VerificationFailed (text_body r)))"
    by (rule conjunct2 [OF conjunct2 [OF conjunct2]])
  from this [rule_format, OF g']
  have v': "snd (test_accountant_agent world_scenario_F) = Inr (VerificationFailed ''not_yet_confirmed'')"
    by simp
  from m r g v v' show ?thesis by (intro conjI)
qed

section \<open>Verification: the profile store\<close>


























section \<open>Verification: the policy engine and the codec of the spec\<close>

text \<open>
  Claim C1 says that an amount above the budget limit is always rejected with
  \<^verbatim>\<open>over_budget\<close>. The spec's algorithm tests the expiry first: a challenge that is
  both expired and over budget is rejected with \<^verbatim>\<open>expired\<close>.
\<close>

theorem decide_expired_over_budget_counterexample:
  "amount challenge_expired > budget_limit profile_B \<and>
   decide (\<lambda>ch p. True) 10 challenge_expired profile_B = Reject Expired"
  by (simp add: decide_def expired_def challenge_expired_def profile_B_def)

text \<open>
  Claim C1 as amended: when the amount exceeds the budget limit, \<open>decide\<close> never
  approves, whatever the tier, the preference text and the advisory step say; the
  rejection is \<^verbatim>\<open>over_budget\<close>, unless the expiry has already passed, in which case it
  is \<^verbatim>\<open>expired\<close>.
\<close>

theorem decide_over_budget_never_approves:
  "amount ch > budget_limit profile \<Longrightarrow>
     decide advisory now ch profile \<noteq> Approve \<and>
     decide advisory now ch profile =
       (if expired now ch then Reject Expired else Reject OverBudget)"
  by (simp add: decide_def)

theorem decide_over_budget_never_approves_witness:
  "amount (challenge_A\<lparr>amount := 1 / 2\<rparr>) > budget_limit profile_B \<and>
   decide (\<lambda>ch p. True) 10 (challenge_A\<lparr>amount := 1 / 2\<rparr>) profile_B = Reject OverBudget \<and>
   decide (\<lambda>ch p. True) 10 challenge_expired profile_B = Reject Expired \<and>
   decide (\<lambda>ch p. True) 10 challenge_A profile_B = Approve"
proof -
  have h: "amount (challenge_A\<lparr>amount := 1 / 2\<rparr>) > budget_limit profile_B"
    by (simp add: challenge_A_def profile_B_def)
  have h': "amount challenge_expired > budget_limit profile_B"
    by (simp add: challenge_expired_def profile_B_def)
  from decide_over_budget_never_approves [OF h, of "\<lambda>ch p. True" 10]
    decide_over_budget_never_approves [OF h', of "\<lambda>ch p. True" 10] h
  show ?thesis
    by (simp add: expired_def challenge_A_def challenge_expired_def decide_def profile_B_def)
qed






end
